theory Spec2Isabelle
  imports Complex_Main
begin

section \<open>Values\<close>

text \<open>
  The strategy of \<^verbatim>\<open>src/strategy.py\<close> computes with Python \<^verbatim>\<open>Decimal\<close> values.
  They are modelled as rationals: every finite \<^verbatim>\<open>Decimal\<close> is a rational, and
  \<^verbatim>\<open>+\<close>, \<^verbatim>\<open>-\<close>, \<^verbatim>\<open>*\<close>, \<^verbatim>\<open>abs\<close>, \<^verbatim>\<open>min\<close>, \<^verbatim>\<open>max\<close> and the comparisons are the
  rational ones as long as the result fits the context precision (28 significant digits
  by default). Rounding of longer results, the special values \<^verbatim>\<open>NaN\<close> and
  \<^verbatim>\<open>Infinity\<close>, and exponent overflow are outside the model. Division by a zero
  \<^verbatim>\<open>Decimal\<close> raises; that is a branch of the model.
\<close>

type_synonym decimal = rat

datatype error =
    DivisionByZero  \<comment> \<open>\<^verbatim>\<open>decimal.DivisionByZero\<close> (or \<^verbatim>\<open>InvalidOperation\<close> for 0/0)\<close>
  | TypeError       \<comment> \<open>arithmetic on \<^verbatim>\<open>None\<close>\<close>
  | AttributeError  \<comment> \<open>an attribute the object does not have\<close>

definition dec_div :: "decimal \<Rightarrow> decimal \<Rightarrow> error + decimal" where
  "dec_div a b = (if b = 0 then Inl DivisionByZero else Inr (a / b))"

section \<open>Configuration\<close>

text \<open>
  \<^verbatim>\<open>class MarketMakerConfig(StrategyConfig, frozen=True)\<close> declares six fields, four of
  them with defaults. The class body holds the field declarations only: there is no
  \<^verbatim>\<open>__post_init__\<close> and no other validation hook.
\<close>

record MarketMakerConfig =
  instrument_id :: string
  trade_size :: decimal
  spread_pct :: decimal
  inventory_threshold :: decimal
  quote_interval_seconds :: int
  close_positions_on_stop :: bool

text \<open>
  The constructor call. The two fields without default are required; an omitted keyword
  argument is \<open>None\<close> and takes the declared default. No branch of the class raises.
\<close>

definition MarketMakerConfig_init ::
  "string \<Rightarrow> decimal \<Rightarrow> decimal option \<Rightarrow> decimal option \<Rightarrow> int option \<Rightarrow> bool option
     \<Rightarrow> error + MarketMakerConfig" where
  "MarketMakerConfig_init iid ts sp it qi cp =
     Inr \<lparr> instrument_id = iid,
           trade_size = ts,
           spread_pct = (case sp of None \<Rightarrow> 1 / 100 | Some v \<Rightarrow> v),
           inventory_threshold = (case it of None \<Rightarrow> 5 | Some v \<Rightarrow> v),
           quote_interval_seconds = (case qi of None \<Rightarrow> 30 | Some v \<Rightarrow> v),
           close_positions_on_stop = (case cp of None \<Rightarrow> True | Some v \<Rightarrow> v) \<rparr>"

section \<open>Strategy state and the framework boundary\<close>

text \<open>
  \<^verbatim>\<open>Instrument\<close>, \<^verbatim>\<open>OrderBook\<close>, the cache, the clock and the order factory belong to
  the trading framework. Of an instrument the strategy reads \<^verbatim>\<open>id\<close> and
  \<^verbatim>\<open>price_precision\<close>.
\<close>

record Instrument =
  instr_id :: string
  price_precision :: nat

text \<open>
  Of an open \<^verbatim>\<open>Position\<close> the strategy reads \<^verbatim>\<open>signed_qty\<close>. In the framework that
  attribute is a Python float (positive when long, negative when short); it is kept by
  the rational it denotes. A float has no attribute \<^verbatim>\<open>as_decimal\<close>, so looking it up
  raises.
\<close>

datatype py_float = PyFloat rat

record Position =
  signed_qty :: py_float

definition as_decimal :: "py_float \<Rightarrow> error + decimal" where
  "as_decimal x = Inl AttributeError"

text \<open>
  The order book is a value of an arbitrary type \<open>'book\<close>; the three framework
  operations the strategy calls on it, and its constructor, are parameters.
\<close>

record ('book, 'deltas) OrderBook_api =
  new_book :: "string \<Rightarrow> 'book"
  apply_deltas :: "'book \<Rightarrow> 'deltas \<Rightarrow> 'book"
  best_bid_price :: "'book \<Rightarrow> decimal option"
  best_ask_price :: "'book \<Rightarrow> decimal option"

text \<open>
  The attributes of \<^verbatim>\<open>MarketMaker\<close>. \<^verbatim>\<open>__init__\<close> copies the six configuration
  fields into attributes that no method assigns again; they are read from \<open>config\<close>.
\<close>

record 'book MarketMaker =
  config :: MarketMakerConfig
  instrument :: "Instrument option"
  book :: "'book option"
  current_mid :: "decimal option"

definition MarketMaker_init :: "MarketMakerConfig \<Rightarrow> 'book MarketMaker" where
  "MarketMaker_init cfg =
     \<lparr> config = cfg, instrument = None, book = None, current_mid = None \<rparr>"

text \<open>
  The requests a handler hands to the framework, in the order it makes them. A limit
  order carries the arguments the source passes: the instrument identifier, the side,
  the price and the precision given to \<^verbatim>\<open>Price(price, precision=...)\<close>, and the size
  given to \<^verbatim>\<open>make_qty\<close>. Calls of \<^verbatim>\<open>self.log\<close> are not recorded.
\<close>

datatype OrderSide = BUY | SELL

datatype request =
    StopStrategy
  | SubscribeOrderBookDeltas string nat
  | SetTimer string int
  | CancelTimer string
  | CancelAllOrders string
  | CloseAllPositions string
  | SubmitLimit string OrderSide decimal nat decimal

section \<open>Lifecycle\<close>

text \<open>\<^verbatim>\<open>on_start\<close>; \<open>found\<close> is what \<^verbatim>\<open>self.cache.instrument(self.instrument_id)\<close> returns.\<close>

definition on_start ::
  "('book, 'deltas) OrderBook_api \<Rightarrow> 'book MarketMaker \<Rightarrow> Instrument option
     \<Rightarrow> 'book MarketMaker \<times> request list" where
  "on_start api self found =
     (case found of
        None \<Rightarrow> (self\<lparr>instrument := None\<rparr>, [StopStrategy])
      | Some i \<Rightarrow>
          (self\<lparr>instrument := Some i, book := Some (new_book api (instr_id i))\<rparr>,
           [SubscribeOrderBookDeltas (instr_id i) 50,
            SetTimer ''quote_timer'' (quote_interval_seconds (config self))]))"

text \<open>
  \<^verbatim>\<open>on_order_book_deltas\<close>. \<^verbatim>\<open>if not self._book\<close> is the test for \<^verbatim>\<open>None\<close>, and
  \<^verbatim>\<open>if bid and ask\<close> the test that both prices are there. The sum and the halving of
  the two prices are taken exact.
\<close>

definition on_order_book_deltas ::
  "('book, 'deltas) OrderBook_api \<Rightarrow> 'book MarketMaker \<Rightarrow> 'deltas
     \<Rightarrow> 'book MarketMaker \<times> request list" where
  "on_order_book_deltas api self deltas =
     (case book self of
        None \<Rightarrow> (self, [])
      | Some b \<Rightarrow>
          (let b' = apply_deltas api b deltas;
               bid = best_bid_price api b';
               ask = best_ask_price api b'
           in case (bid, ask) of
                (Some x, Some y) \<Rightarrow>
                  (self\<lparr>book := Some b', current_mid := Some ((x + y) / 2)\<rparr>, [])
              | _ \<Rightarrow> (self\<lparr>book := Some b'\<rparr>, [])))"

definition on_stop :: "'book MarketMaker \<Rightarrow> 'book MarketMaker \<times> request list" where
  "on_stop self =
     (self,
      [CancelTimer ''quote_timer'', CancelAllOrders (instrument_id (config self))]
      @ (if close_positions_on_stop (config self)
         then [CloseAllPositions (instrument_id (config self))] else []))"

section \<open>Skew calculation\<close>

text \<open>
  \<^verbatim>\<open>_calculate_skew\<close> reads \<^verbatim>\<open>self.inventory_threshold\<close> and nothing else of the
  strategy; the threshold is the first argument.
\<close>

definition calculate_skew :: "decimal \<Rightarrow> decimal \<Rightarrow> error + decimal" where
  "calculate_skew threshold position =
     (if threshold = 0 then Inr 0
      else
        (case dec_div \<bar>position\<bar> threshold of
           Inl e \<Rightarrow> Inl e
         | Inr position_ratio \<Rightarrow>
             (let MAX_SKEW = 1 / 2;
                  skew_amount = position_ratio * MAX_SKEW
              in Inr (min skew_amount MAX_SKEW))))"

section \<open>Helper methods\<close>

text \<open>
  \<^verbatim>\<open>_get_position\<close>; \<open>positions\<close> is the list \<^verbatim>\<open>self.cache.positions_open(...)\<close>
  returns. For a list that is not empty the result is that of
  \<^verbatim>\<open>position[0].signed_qty.as_decimal()\<close>.
\<close>

definition get_position :: "Position list \<Rightarrow> error + decimal" where
  "get_position positions =
     (case positions of
        [] \<Rightarrow> Inr 0
      | p # _ \<Rightarrow> as_decimal (signed_qty p))"

definition submit_buy :: "'book MarketMaker \<Rightarrow> decimal \<Rightarrow> request list" where
  "submit_buy self price =
     (case instrument self of
        None \<Rightarrow> []
      | Some i \<Rightarrow>
          [SubmitLimit (instrument_id (config self)) BUY price (price_precision i)
             (trade_size (config self))])"

definition submit_sell :: "'book MarketMaker \<Rightarrow> decimal \<Rightarrow> request list" where
  "submit_sell self price =
     (case instrument self of
        None \<Rightarrow> []
      | Some i \<Rightarrow>
          [SubmitLimit (instrument_id (config self)) SELL price (price_precision i)
             (trade_size (config self))])"

section \<open>Core logic\<close>

text \<open>
  Steps 2 to 4 of \<^verbatim>\<open>_place_orders\<close>: the values of its local variables once the two
  prices are computed.
\<close>

record QuotePlan =
  skew_fraction :: decimal
  bid_spread :: decimal
  ask_spread :: decimal
  buy_price :: decimal
  sell_price :: decimal

definition plan_quotes :: "MarketMakerConfig \<Rightarrow> decimal \<Rightarrow> decimal \<Rightarrow> error + QuotePlan" where
  "plan_quotes cfg mid position =
     (case calculate_skew (inventory_threshold cfg) position of
        Inl e \<Rightarrow> Inl e
      | Inr skew \<Rightarrow>
          (let half_spread = spread_pct cfg / 2;
               (bid0, ask0) =
                 (if position > 0 then (half_spread, half_spread - half_spread * skew)
                  else if position < 0 then (half_spread - half_spread * skew, half_spread)
                  else (half_spread, half_spread));
               bid = max bid0 0;
               ask = max ask0 0
           in Inr \<lparr> skew_fraction = skew,
                    bid_spread = bid,
                    ask_spread = ask,
                    buy_price = mid * (1 - bid),
                    sell_price = mid * (1 + ask) \<rparr>))"

text \<open>
  \<^verbatim>\<open>_place_orders\<close>: position, plan, then the two submissions. An error of the
  position query ends it before anything is planned or submitted. Multiplying a
  \<^verbatim>\<open>_current_mid\<close> of \<^verbatim>\<open>None\<close> raises.
\<close>

definition place_orders :: "'book MarketMaker \<Rightarrow> Position list \<Rightarrow> error + request list" where
  "place_orders self positions =
     (case get_position positions of
        Inl e \<Rightarrow> Inl e
      | Inr position \<Rightarrow>
          (case current_mid self of
             None \<Rightarrow>
               (case calculate_skew (inventory_threshold (config self)) position of
                  Inl e \<Rightarrow> Inl e
                | Inr _ \<Rightarrow> Inl TypeError)
           | Some mid \<Rightarrow>
               (case plan_quotes (config self) mid position of
                  Inl e \<Rightarrow> Inl e
                | Inr q \<Rightarrow>
                    Inr (submit_buy self (buy_price q) @ submit_sell self (sell_price q)))))"

section \<open>Timer callback\<close>

text \<open>
  \<^verbatim>\<open>_on_quote_timer\<close>. \<^verbatim>\<open>not self._current_mid\<close> holds for \<^verbatim>\<open>None\<close> and for a zero
  \<^verbatim>\<open>Decimal\<close>; \<^verbatim>\<open>not self.instrument\<close> holds for \<^verbatim>\<open>None\<close>. A handler that raises
  returns the error together with the requests it had made before: the cancellation
  precedes \<^verbatim>\<open>_place_orders\<close>.
\<close>

definition on_quote_timer ::
  "'book MarketMaker \<Rightarrow> Position list
     \<Rightarrow> error \<times> request list + 'book MarketMaker \<times> request list" where
  "on_quote_timer self positions =
     (if current_mid self = None \<or> current_mid self = Some 0 \<or> instrument self = None
      then Inr (self, [])
      else
        (case place_orders self positions of
           Inl e \<Rightarrow> Inl (e, [CancelAllOrders (instrument_id (config self))])
         | Inr submitted \<Rightarrow>
             Inr (self, CancelAllOrders (instrument_id (config self)) # submitted)))"

section \<open>Event stream\<close>

text \<open>
  The framework delivers events one at a time. A timer event carries what the position
  query returns at that moment, a start event what the instrument lookup returns. A run
  ends at the first handler that raises, with the requests made up to there.
\<close>

datatype 'deltas event =
    Start "Instrument option"
  | BookDeltas 'deltas
  | Timer "Position list"
  | Stop

fun handle ::
  "('book, 'deltas) OrderBook_api \<Rightarrow> 'book MarketMaker \<Rightarrow> 'deltas event
     \<Rightarrow> error \<times> request list + 'book MarketMaker \<times> request list" where
  "handle api self (Start found) = Inr (on_start api self found)"
| "handle api self (BookDeltas d) = Inr (on_order_book_deltas api self d)"
| "handle api self (Timer positions) = on_quote_timer self positions"
| "handle api self Stop = Inr (on_stop self)"

fun run ::
  "('book, 'deltas) OrderBook_api \<Rightarrow> 'book MarketMaker \<Rightarrow> 'deltas event list
     \<Rightarrow> error \<times> request list + 'book MarketMaker \<times> request list" where
  "run api self [] = Inr (self, [])"
| "run api self (e # es) =
     (case handle api self e of
        Inl err \<Rightarrow> Inl err
      | Inr (self', out) \<Rightarrow>
          (case run api self' es of
             Inl (err, out') \<Rightarrow> Inl (err, out @ out')
           | Inr (self'', out') \<Rightarrow> Inr (self'', out @ out')))"

fun is_submit :: "request \<Rightarrow> bool" where
  "is_submit (SubmitLimit _ _ _ _ _) = True"
| "is_submit _ = False"

fun is_book_event :: "'deltas event \<Rightarrow> bool" where
  "is_book_event (BookDeltas _) = True"
| "is_book_event _ = False"

section \<open>Example inputs\<close>

text \<open>
  A book that keeps the top of the book only, where a batch of deltas states the new best
  bid and best ask; the configuration and a started strategy of the documented example
  (total spread 1 percent, threshold 5), with a given mid; an open long position of 5.
\<close>

definition top_of_book ::
  "(decimal option \<times> decimal option, decimal option \<times> decimal option) OrderBook_api" where
  "top_of_book =
     \<lparr> new_book = (\<lambda>_. (None, None)),
       apply_deltas = (\<lambda>b d. d),
       best_bid_price = fst,
       best_ask_price = snd \<rparr>"

definition example_config :: MarketMakerConfig where
  "example_config =
     \<lparr> instrument_id = ''BTC-USD.COINBASE'',
       trade_size = 1 / 10,
       spread_pct = 1 / 100,
       inventory_threshold = 5,
       quote_interval_seconds = 30,
       close_positions_on_stop = True \<rparr>"

definition example_strategy ::
  "decimal option \<Rightarrow> (decimal option \<times> decimal option) MarketMaker" where
  "example_strategy mid =
     \<lparr> config = example_config,
       instrument = Some \<lparr> instr_id = ''BTC-USD.COINBASE'', price_precision = 2 \<rparr>,
       book = Some (None, None),
       current_mid = mid \<rparr>"

definition example_position :: Position where
  "example_position = \<lparr> signed_qty = PyFloat 5 \<rparr>"

section \<open>Basic facts\<close>

lemma calculate_skew_nonzero:
  "t \<noteq> 0 \<Longrightarrow> calculate_skew t p = Inr (min (\<bar>p\<bar> / t * (1 / 2)) (1 / 2))"
  by (simp add: calculate_skew_def dec_div_def)

text \<open>The guard on a zero threshold is the only way to the division: it never raises.\<close>

lemma calculate_skew_total: "\<exists>s. calculate_skew t p = Inr s"
  by (cases "t = 0") (simp_all add: calculate_skew_def dec_div_def)

text \<open>The plan in closed form, for a given skew.\<close>

lemma plan_quotes_spreads:
  assumes "calculate_skew (inventory_threshold cfg) position = Inr s"
  shows "plan_quotes cfg mid position =
     Inr \<lparr> skew_fraction = s,
           bid_spread =
             max (if position < 0 then spread_pct cfg / 2 - spread_pct cfg / 2 * s
                  else spread_pct cfg / 2) 0,
           ask_spread =
             max (if position > 0 then spread_pct cfg / 2 - spread_pct cfg / 2 * s
                  else spread_pct cfg / 2) 0,
           buy_price =
             mid * (1 - max (if position < 0 then spread_pct cfg / 2 - spread_pct cfg / 2 * s
                             else spread_pct cfg / 2) 0),
           sell_price =
             mid * (1 + max (if position > 0 then spread_pct cfg / 2 - spread_pct cfg / 2 * s
                             else spread_pct cfg / 2) 0) \<rparr>"
  using assms by (simp add: plan_quotes_def Let_def)

text \<open>
  With no open position the timer callback does not raise: it reaches \<open>place_orders\<close>
  only with a mid, and the skew calculation is total. For the documented example, flat at
  a mid of 100, it cancels and then quotes 99.5 and 100.5.
\<close>

lemma on_quote_timer_flat_total: "\<exists>r. on_quote_timer self [] = Inr r"
proof (cases "current_mid self = None \<or> current_mid self = Some 0 \<or> instrument self = None")
  case True
  then show ?thesis by (auto simp: on_quote_timer_def)
next
  case False
  then obtain mid where mid: "current_mid self = Some mid" by auto
  obtain s where s: "calculate_skew (inventory_threshold (config self)) 0 = Inr s"
    using calculate_skew_total by blast
  show ?thesis
    using False mid
    by (simp add: on_quote_timer_def place_orders_def get_position_def
        plan_quotes_spreads [OF s])
qed

lemma quote_cycle_flat:
  "on_quote_timer (example_strategy (Some 100)) [] =
     Inr (example_strategy (Some 100),
          [CancelAllOrders ''BTC-USD.COINBASE'',
           SubmitLimit ''BTC-USD.COINBASE'' BUY (199 / 2) 2 (1 / 10),
           SubmitLimit ''BTC-USD.COINBASE'' SELL (201 / 2) 2 (1 / 10)])"
  by (simp add: calculate_skew_def dec_div_def plan_quotes_def example_config_def
      example_strategy_def on_quote_timer_def place_orders_def get_position_def
      submit_buy_def submit_sell_def Let_def)

text \<open>
  With an open position, a timer cycle that passes its guard cancels the outstanding
  orders and then raises in the position query: it submits nothing.
\<close>

lemma quote_cycle_open_position_raises:
  assumes "current_mid self = Some mid" and "mid \<noteq> 0" and "instrument self = Some i"
  shows "on_quote_timer self (p # ps) =
           Inl (AttributeError, [CancelAllOrders (instrument_id (config self))])"
  using assms
  by (simp add: on_quote_timer_def place_orders_def get_position_def as_decimal_def)

text \<open>
  Without a mid, an event that is not a book update leaves the strategy without a mid and
  submits nothing; so does any sequence of such events.
\<close>

lemma handle_without_mid:
  assumes "current_mid self = None" and "\<not> is_book_event e"
  shows "\<exists>self' out. handle api self e = Inr (self', out) \<and> current_mid self' = None \<and>
           \<not> list_ex is_submit out"
  using assms
  by (cases e) (auto simp: on_start_def on_quote_timer_def on_stop_def split: option.splits)

lemma run_without_mid:
  assumes "current_mid self = None" and "\<not> list_ex is_book_event es"
  shows "\<exists>self' out. run api self es = Inr (self', out) \<and> current_mid self' = None \<and>
           \<not> list_ex is_submit out"
  using assms
proof (induction es arbitrary: self)
  case Nil
  then show ?case by simp
next
  case (Cons e es)
  then have e: "\<not> is_book_event e" and es: "\<not> list_ex is_book_event es" by simp_all
  from handle_without_mid [OF Cons.prems(1) e] obtain s1 out1 where
    h: "handle api self e = Inr (s1, out1)" "current_mid s1 = None" "\<not> list_ex is_submit out1"
    by blast
  from Cons.IH [OF h(2) es] obtain s2 out2 where
    r: "run api s1 es = Inr (s2, out2)" "current_mid s2 = None" "\<not> list_ex is_submit out2"
    by blast
  show ?case using h r by (auto simp: list_ex_iff)
qed

section \<open>Quote plan at the threshold\<close>

text \<open>
  C1 (as the code has it). With \<open>spread_pct = 0.01\<close>, \<open>inventory_threshold = 5\<close>, a mid
  of 100 and a position of 5, the skew is 0.5, the ask spread is half of the half-spread,
  0.0025, and the bid spread the full half-spread 0.005: the planned buy price is 99.5 and
  the planned sell price 100.25.
\<close>

theorem quote_plan_at_threshold:
  "calculate_skew 5 5 = Inr (1 / 2) \<and>
   plan_quotes example_config 100 5 =
     Inr \<lparr> skew_fraction = 1 / 2, bid_spread = 1 / 200, ask_spread = 1 / 400,
           buy_price = 199 / 2, sell_price = 401 / 4 \<rparr>"
  by (simp add: calculate_skew_def dec_div_def plan_quotes_def example_config_def)

text \<open>
  C1 as stated fails: at this input the skew is 0.5, but the plan is not the one with an
  ask spread of 0 and a sell price of 100.
\<close>

theorem quote_plan_at_threshold_not_at_mid:
  "calculate_skew 5 5 = Inr (1 / 2) \<and>
   plan_quotes example_config 100 5 \<noteq>
     Inr \<lparr> skew_fraction = 1 / 2, bid_spread = 1 / 200, ask_spread = 0,
           buy_price = 199 / 2, sell_price = 100 \<rparr>"
  by (simp add: calculate_skew_def dec_div_def plan_quotes_def example_config_def)

section \<open>Configuration values\<close>

text \<open>
  C2 (as the code has it). The constructor checks no value: for every choice of
  arguments it succeeds and the configuration holds the trade size, spread, threshold and
  interval as given (the defaults 0.01, 5, 30 and \<open>True\<close> where one is omitted), whatever
  their sign.
\<close>

theorem config_init_stores_arguments:
  "MarketMakerConfig_init iid ts sp it qi cp =
     Inr \<lparr> instrument_id = iid,
           trade_size = ts,
           spread_pct = (case sp of None \<Rightarrow> 1 / 100 | Some v \<Rightarrow> v),
           inventory_threshold = (case it of None \<Rightarrow> 5 | Some v \<Rightarrow> v),
           quote_interval_seconds = (case qi of None \<Rightarrow> 30 | Some v \<Rightarrow> v),
           close_positions_on_stop = (case cp of None \<Rightarrow> True | Some v \<Rightarrow> v) \<rparr>"
  by (simp add: MarketMakerConfig_init_def)

text \<open>
  C2 as stated fails: a trade size of 0, a spread of -0.01, a threshold of 0 and an
  interval of -5 seconds are accepted, and the configuration built holds them.
\<close>

theorem config_init_accepts_nonpositive:
  "MarketMakerConfig_init ''BTCUSDT-LINEAR.BYBIT'' 0 (Some (- 1 / 100)) (Some 0) (Some (- 5)) None =
     Inr \<lparr> instrument_id = ''BTCUSDT-LINEAR.BYBIT'',
           trade_size = 0,
           spread_pct = - 1 / 100,
           inventory_threshold = 0,
           quote_interval_seconds = - 5,
           close_positions_on_stop = True \<rparr>"
  by (simp add: MarketMakerConfig_init_def)

section \<open>Quotes bracket the mid\<close>

text \<open>
  C3. For a positive mid, any signed position and any configuration (so in particular
  any with positive fields), the plan exists, the buy price is at most the mid, the sell
  price at least the mid, and both spreads are non-negative after the floor.
\<close>

theorem plan_quotes_brackets_mid:
  assumes "0 < mid"
  shows "\<exists>q. plan_quotes cfg mid position = Inr q \<and>
              buy_price q \<le> mid \<and> mid \<le> sell_price q \<and>
              0 \<le> bid_spread q \<and> 0 \<le> ask_spread q"
proof -
  obtain s where s: "calculate_skew (inventory_threshold cfg) position = Inr s"
    using calculate_skew_total by blast
  define b where
    "b = max (if position < 0 then spread_pct cfg / 2 - spread_pct cfg / 2 * s
              else spread_pct cfg / 2) 0"
  define a where
    "a = max (if position > 0 then spread_pct cfg / 2 - spread_pct cfg / 2 * s
              else spread_pct cfg / 2) 0"
  have b: "0 \<le> b" and a: "0 \<le> a" by (simp_all add: a_def b_def)
  have "mid * b \<ge> 0" "mid * a \<ge> 0" using assms a b by simp_all
  then have "mid * (1 - b) \<le> mid" "mid \<le> mid * (1 + a)"
    by (simp_all add: algebra_simps)
  then show ?thesis
    using a b unfolding a_def b_def plan_quotes_spreads [OF s] by simp
qed

text \<open>The documented example: mid 100 and a long position of 2.5.\<close>

theorem plan_quotes_brackets_mid_witness:
  "(0::rat) < 100 \<and>
   (\<exists>q. plan_quotes example_config 100 (5 / 2) = Inr q \<and>
        buy_price q \<le> 100 \<and> 100 \<le> sell_price q \<and>
        0 \<le> bid_spread q \<and> 0 \<le> ask_spread q)"
  using plan_quotes_brackets_mid [of 100 example_config "5 / 2"] by simp

section \<open>Range, monotonicity and symmetry of the skew\<close>

text \<open>
  C4. For a threshold above zero the skew of any position exists, lies between 0 and 0.5,
  does not decrease when the magnitude of the position grows, is exactly 0.5 once the
  magnitude reaches the threshold, and is the same for two positions of equal magnitude.
\<close>

theorem calculate_skew_range_monotone:
  assumes "0 < t"
  shows "\<exists>s s'. calculate_skew t p = Inr s \<and> calculate_skew t q = Inr s' \<and>
           0 \<le> s \<and> s \<le> 1 / 2 \<and>
           (\<bar>p\<bar> \<le> \<bar>q\<bar> \<longrightarrow> s \<le> s') \<and>
           (t \<le> \<bar>p\<bar> \<longrightarrow> s = 1 / 2) \<and>
           (\<bar>p\<bar> = \<bar>q\<bar> \<longrightarrow> s = s')"
proof -
  have t: "t \<noteq> 0" using assms by simp
  have nonneg: "0 \<le> \<bar>p\<bar> / t * (1 / 2)" using assms by simp
  have mono: "\<bar>p\<bar> / t * (1 / 2) \<le> \<bar>q\<bar> / t * (1 / 2)" if "\<bar>p\<bar> \<le> \<bar>q\<bar>"
    using that assms by (simp add: divide_right_mono)
  have sat: "1 / 2 \<le> \<bar>p\<bar> / t * (1 / 2)" if "t \<le> \<bar>p\<bar>"
    using that assms by (simp add: pos_le_divide_eq)
  show ?thesis
    unfolding calculate_skew_nonzero [OF t]
    using nonneg mono sat by (auto simp: min_def)
qed

text \<open>Threshold 5, long 5 against short 5: both skews are 0.5.\<close>

theorem calculate_skew_range_monotone_witness:
  "(0::rat) < 5 \<and> \<bar>5::rat\<bar> \<le> \<bar>- 5\<bar> \<and> (5::rat) \<le> \<bar>5\<bar> \<and> \<bar>5::rat\<bar> = \<bar>- 5\<bar> \<and>
   calculate_skew 5 5 = Inr (1 / 2) \<and> calculate_skew 5 (- 5) = Inr (1 / 2)"
proof -
  have h: "(0::rat) < 5" by simp
  from calculate_skew_range_monotone [OF h, of 5 "- 5"] obtain s s' where
    "calculate_skew 5 5 = Inr s" "calculate_skew 5 (- 5) = Inr s'" "s = 1 / 2" "s = s'"
    by auto
  then show ?thesis by simp
qed

section \<open>Zero threshold\<close>

text \<open>
  C5. With an inventory threshold of zero the skew calculation returns 0 for every
  position; it returns a value, so no division error is raised.
\<close>

theorem calculate_skew_zero_threshold: "calculate_skew 0 p = Inr 0"
  by (simp add: calculate_skew_def)

section \<open>Mirror symmetry of the plan\<close>

text \<open>
  C6. For every mid, every magnitude \<open>x > 0\<close> and every configuration of the data
  model (its spread is positive; a spread of zero is covered too): the ask spread when
  long \<open>x\<close> is the bid spread when short \<open>x\<close>, the side that is not tightened has spread
  \<open>spread_pct / 2\<close> in both cases, and with a position of zero both spreads are
  \<open>spread_pct / 2\<close>.
\<close>

theorem plan_quotes_mirror:
  assumes "0 < x" and "0 \<le> spread_pct cfg"
  shows "\<exists>qp qm q0.
           plan_quotes cfg mid x = Inr qp \<and> plan_quotes cfg mid (- x) = Inr qm \<and>
           plan_quotes cfg mid 0 = Inr q0 \<and>
           ask_spread qp = bid_spread qm \<and>
           bid_spread qp = spread_pct cfg / 2 \<and> ask_spread qm = spread_pct cfg / 2 \<and>
           bid_spread q0 = spread_pct cfg / 2 \<and> ask_spread q0 = spread_pct cfg / 2"
proof -
  obtain s where s: "calculate_skew (inventory_threshold cfg) x = Inr s"
    using calculate_skew_total by blast
  have "calculate_skew (inventory_threshold cfg) (- x) =
        calculate_skew (inventory_threshold cfg) x"
    by (simp add: calculate_skew_def)
  then have sm: "calculate_skew (inventory_threshold cfg) (- x) = Inr s" using s by simp
  obtain s0 where s0: "calculate_skew (inventory_threshold cfg) 0 = Inr s0"
    using calculate_skew_total by blast
  show ?thesis
    unfolding plan_quotes_spreads [OF s] plan_quotes_spreads [OF sm] plan_quotes_spreads [OF s0]
    using assms by simp
qed

text \<open>Long and short 2.5 at the documented configuration: half-spread 0.005.\<close>

theorem plan_quotes_mirror_witness:
  "(0::rat) < 5 / 2 \<and> 0 \<le> spread_pct example_config \<and>
   (\<exists>qp qm q0.
      plan_quotes example_config 100 (5 / 2) = Inr qp \<and>
      plan_quotes example_config 100 (- (5 / 2)) = Inr qm \<and>
      plan_quotes example_config 100 0 = Inr q0 \<and>
      ask_spread qp = bid_spread qm \<and>
      bid_spread qp = 1 / 200 \<and> ask_spread qm = 1 / 200 \<and>
      bid_spread q0 = 1 / 200 \<and> ask_spread q0 = 1 / 200)"
proof -
  have h: "(0::rat) < 5 / 2" "0 \<le> spread_pct example_config"
    by (simp_all add: example_config_def)
  have e: "spread_pct example_config / 2 = 1 / 200" by (simp add: example_config_def)
  show ?thesis using h plan_quotes_mirror [OF h, of 100] unfolding e by simp
qed

section \<open>Mid-price tracking\<close>

text \<open>
  C7. For a strategy that has its book: when after a batch of deltas the book has a best
  bid \<open>x\<close> and a best ask \<open>y\<close>, the stored mid is \<open>(x + y) / 2\<close>; when the best bid or
  the best ask is absent, the stored mid is the one from before.
\<close>

theorem book_update_mid:
  assumes "book self = Some b"
  shows "(best_bid_price api (apply_deltas api b d) = Some x \<and>
          best_ask_price api (apply_deltas api b d) = Some y \<longrightarrow>
            current_mid (fst (on_order_book_deltas api self d)) = Some ((x + y) / 2)) \<and>
         (best_bid_price api (apply_deltas api b d) = None \<or>
          best_ask_price api (apply_deltas api b d) = None \<longrightarrow>
            current_mid (fst (on_order_book_deltas api self d)) = current_mid self)"
  using assms by (auto simp: on_order_book_deltas_def Let_def split: option.splits)

text \<open>
  Bid 99 and ask 101 give a mid of 100; a later batch that leaves no ask keeps the mid
  of 100.
\<close>

theorem book_update_mid_witness:
  "book (example_strategy None) = Some (None, None) \<and>
   best_bid_price top_of_book
     (apply_deltas top_of_book (None, None) (Some 99, Some 101)) = Some 99 \<and>
   best_ask_price top_of_book
     (apply_deltas top_of_book (None, None) (Some 99, Some 101)) = Some 101 \<and>
   current_mid (fst (on_order_book_deltas top_of_book (example_strategy None)
     (Some 99, Some 101))) = Some 100 \<and>
   book (example_strategy (Some 100)) = Some (None, None) \<and>
   best_ask_price top_of_book
     (apply_deltas top_of_book (None, None) (Some 99, None)) = None \<and>
   current_mid (fst (on_order_book_deltas top_of_book (example_strategy (Some 100))
     (Some 99, None))) = Some 100"
proof -
  have b1: "book (example_strategy None) = Some (None, None)"
    and b2: "book (example_strategy (Some 100)) = Some (None, None)"
    by (simp_all add: example_strategy_def)
  show ?thesis
    using book_update_mid [OF b1, of top_of_book "(Some 99, Some 101)" 99 101]
      book_update_mid [OF b2, of top_of_book "(Some 99, None)" 0 0]
    by (simp add: top_of_book_def example_strategy_def)
qed

section \<open>Timer ticks without a mid\<close>

text \<open>
  C8. In any state without a mid, a timer tick returns normally with the state as it was
  and no request: nothing is cancelled and nothing submitted. And from the initial state,
  any sequence of events without a book update (starts, stops and any number of timer
  ticks) runs without error, ends without a mid and contains no order submission.
\<close>

theorem tick_without_mid_submits_nothing:
  "(current_mid self = None \<longrightarrow> on_quote_timer self positions = Inr (self, [])) \<and>
   (\<not> list_ex is_book_event es \<longrightarrow>
      (\<exists>self' out. run api (MarketMaker_init cfg) es = Inr (self', out) \<and>
         current_mid self' = None \<and> \<not> list_ex is_submit out))"
proof (intro conjI impI)
  assume "current_mid self = None"
  then show "on_quote_timer self positions = Inr (self, [])"
    by (simp add: on_quote_timer_def)
next
  assume "\<not> list_ex is_book_event es"
  moreover have "current_mid (MarketMaker_init cfg) = None"
    by (simp add: MarketMaker_init_def)
  ultimately show "\<exists>self' out. run api (MarketMaker_init cfg) es = Inr (self', out) \<and>
         current_mid self' = None \<and> \<not> list_ex is_submit out"
    using run_without_mid by blast
qed

text \<open>
  A started strategy without a mid, and a start, two ticks (the second with an open
  position) and a stop.
\<close>

theorem tick_without_mid_submits_nothing_witness:
  "current_mid (example_strategy None) = None \<and>
   on_quote_timer (example_strategy None) [example_position] =
     Inr (example_strategy None, []) \<and>
   \<not> list_ex is_book_event
       [Start (Some \<lparr> instr_id = ''BTC-USD.COINBASE'', price_precision = 2 \<rparr>),
        Timer [], Timer [example_position], Stop
        :: (decimal option \<times> decimal option) event] \<and>
   (\<exists>self' out. run top_of_book (MarketMaker_init example_config)
       [Start (Some \<lparr> instr_id = ''BTC-USD.COINBASE'', price_precision = 2 \<rparr>),
        Timer [], Timer [example_position], Stop] = Inr (self', out) \<and>
         current_mid self' = None \<and> \<not> list_ex is_submit out)"
  using tick_without_mid_submits_nothing [of "example_strategy None" "[example_position]"
      "[Start (Some \<lparr> instr_id = ''BTC-USD.COINBASE'', price_precision = 2 \<rparr>),
        Timer [], Timer [example_position], Stop]" top_of_book example_config]
  by (simp add: example_strategy_def)

section \<open>Zero mid, missing instrument\<close>

text \<open>
  C9. When the stored mid is exactly zero, or the instrument is not set, a timer tick
  returns normally with the state as it was and no request: nothing is cancelled and no
  order, at price zero or any other, is submitted.
\<close>

theorem tick_with_zero_mid_skips:
  assumes "current_mid self = Some 0 \<or> instrument self = None"
  shows "on_quote_timer self positions = Inr (self, [])"
  using assms by (auto simp: on_quote_timer_def)

text \<open>
  A started strategy with a mid of zero; and a strategy with a mid of 100 that was never
  started, so has no instrument.
\<close>

theorem tick_with_zero_mid_skips_witness:
  "(current_mid (example_strategy (Some 0)) = Some 0 \<or>
      instrument (example_strategy (Some 0)) = None) \<and>
   on_quote_timer (example_strategy (Some 0)) [example_position] =
     Inr (example_strategy (Some 0), []) \<and>
   (current_mid (MarketMaker_init example_config\<lparr>current_mid := Some 100\<rparr> :: unit MarketMaker)
      = Some 0 \<or>
    instrument (MarketMaker_init example_config\<lparr>current_mid := Some 100\<rparr> :: unit MarketMaker)
      = None) \<and>
   on_quote_timer (MarketMaker_init example_config\<lparr>current_mid := Some 100\<rparr> :: unit MarketMaker)
       [example_position]
     = Inr (MarketMaker_init example_config\<lparr>current_mid := Some 100\<rparr>, [])"
proof -
  have h1: "current_mid (example_strategy (Some 0)) = Some 0 \<or>
      instrument (example_strategy (Some 0)) = None"
    by (simp add: example_strategy_def)
  have h2:
    "current_mid (MarketMaker_init example_config\<lparr>current_mid := Some 100\<rparr> :: unit MarketMaker)
       = Some 0 \<or>
     instrument (MarketMaker_init example_config\<lparr>current_mid := Some 100\<rparr> :: unit MarketMaker)
       = None"
    by (simp add: MarketMaker_init_def)
  show ?thesis
    using h1 h2 tick_with_zero_mid_skips [OF h1, of "[example_position]"]
      tick_with_zero_mid_skips [OF h2, of "[example_position]"] by simp
qed

section \<open>Position query\<close>

text \<open>
  C10 (the code on its inputs). The position query returns 0 when the cache reports no
  open position. When one or more open positions are reported, it does not return the
  signed quantity of the first one, as its docstring says: the lookup of
  \<^verbatim>\<open>as_decimal\<close> on the float \<^verbatim>\<open>signed_qty\<close> raises, whatever the position and
  whatever follows it in the list.
\<close>

theorem get_position_open_position_raises:
  "get_position [] = Inr 0 \<and>
   get_position [example_position] = Inl AttributeError \<and>
   get_position (p # others) = Inl AttributeError"
  by (simp add: get_position_def as_decimal_def)

end
